theory Spec2Isabelle
  imports Complex_Main
begin

section \<open>JavaScript numbers\<close>

text \<open>
  The amounts of the dashboard are JavaScript \<^verbatim>\<open>number\<close>s: IEEE 754 binary64 values.
  A finite value is kept as the real number it denotes (\<open>Finite 0\<close> stands for both
  zeros, which no function below tells apart), next to the two infinities and NaN.
\<close>

datatype js_number = Finite real | PosInfinity | NegInfinity | NaN

text \<open>Number of binary digits of a natural number.\<close>

fun bit_length :: "nat \<Rightarrow> nat" where
  "bit_length n = (if n = 0 then 0 else Suc (bit_length (n div 2)))"

declare bit_length.simps [simp del]

text \<open>The binary exponent \<open>\<lfloor>log\<^sub>2 x\<rfloor>\<close> of a positive real.\<close>

definition floor_log2 :: "real \<Rightarrow> int" where
  "floor_log2 x =
     (if 1 \<le> x then int (bit_length (nat \<lfloor>x\<rfloor>)) - 1
      else - int (bit_length (nat (\<lceil>1 / x\<rceil> - 1))))"

definition pow2 :: "int \<Rightarrow> real" where
  "pow2 e = (if 0 \<le> e then 2 ^ nat e else 1 / 2 ^ nat (- e))"

definition round_half_even :: "real \<Rightarrow> int" where
  "round_half_even m =
     (let f = \<lfloor>m\<rfloor>; d = m - of_int f
      in if d < 1 / 2 then f
         else if 1 / 2 < d then f + 1
         else if even f then f else f + 1)"

text \<open>
  Rounding of an exact result to binary64, to nearest with ties to even: 53 significant
  bits, the least exponent of the last place \<open>-1074\<close> (subnormal numbers), overflow to
  an infinity from \<open>2\<^sup>1\<^sup>0\<^sup>2\<^sup>4\<close> on.
\<close>

definition round_binary64 :: "real \<Rightarrow> js_number" where
  "round_binary64 x =
     (if x = 0 then Finite 0
      else let q = max (floor_log2 \<bar>x\<bar> - 52) (- 1074);
               r = round_half_even (\<bar>x\<bar> / pow2 q);
               y = of_int r * pow2 q
           in if 2 ^ 1024 \<le> y then (if x < 0 then NegInfinity else PosInfinity)
              else Finite (if x < 0 then - y else y))"

text \<open>A real number is a binary64 value when rounding leaves it as it is.\<close>

definition is_binary64 :: "real \<Rightarrow> bool" where
  "is_binary64 x = (round_binary64 x = Finite x)"

text \<open>
  The number a decimal numeral denotes, in the source text or typed into a form field
  (\<^verbatim>\<open>parseFloat\<close>): the binary64 value nearest to it.
\<close>

definition js_literal :: "real \<Rightarrow> js_number" where
  "js_literal d = round_binary64 d"

text \<open>The product \<^verbatim>\<open>a * b\<close> of two numbers.\<close>

fun js_times :: "js_number \<Rightarrow> js_number \<Rightarrow> js_number" where
  "js_times (Finite x) (Finite y) = round_binary64 (x * y)"
| "js_times NaN b = NaN"
| "js_times a NaN = NaN"
| "js_times (Finite x) PosInfinity =
     (if x = 0 then NaN else if 0 < x then PosInfinity else NegInfinity)"
| "js_times (Finite x) NegInfinity =
     (if x = 0 then NaN else if 0 < x then NegInfinity else PosInfinity)"
| "js_times PosInfinity (Finite y) =
     (if y = 0 then NaN else if 0 < y then PosInfinity else NegInfinity)"
| "js_times NegInfinity (Finite y) =
     (if y = 0 then NaN else if 0 < y then NegInfinity else PosInfinity)"
| "js_times PosInfinity PosInfinity = PosInfinity"
| "js_times PosInfinity NegInfinity = NegInfinity"
| "js_times NegInfinity PosInfinity = NegInfinity"
| "js_times NegInfinity NegInfinity = PosInfinity"

text \<open>
  The quotient \<^verbatim>\<open>a / d\<close> by a finite positive \<open>d\<close>: the only divisors of the source
  are the literals \<^verbatim>\<open>1e6\<close> and \<^verbatim>\<open>100\<close>.
\<close>

fun js_divide_by :: "js_number \<Rightarrow> real \<Rightarrow> js_number" where
  "js_divide_by (Finite x) d = round_binary64 (x / d)"
| "js_divide_by PosInfinity d = PosInfinity"
| "js_divide_by NegInfinity d = NegInfinity"
| "js_divide_by NaN d = NaN"

fun Math_floor :: "js_number \<Rightarrow> js_number" where
  "Math_floor (Finite x) = Finite (of_int \<lfloor>x\<rfloor>)"
| "Math_floor PosInfinity = PosInfinity"
| "Math_floor NegInfinity = NegInfinity"
| "Math_floor NaN = NaN"

text \<open>
  What the code of this repository throws: \<^verbatim>\<open>new Error(message)\<close>, the RangeError of
  \<^verbatim>\<open>BigInt()\<close>, the TypeError of reading a property of null or undefined, and a caught
  value thrown again (see \<open>promise\<close> below).
\<close>

datatype rejection = Rejection (message: "string option")

datatype js_error = Error string | RangeError | TypeError | Rethrown rejection | RethrownNullish

text \<open>\<^verbatim>\<open>BigInt(v)\<close> of a number: a RangeError unless \<open>v\<close> is an integer.\<close>

fun BigInt :: "js_number \<Rightarrow> js_error + int" where
  "BigInt (Finite x) = (if x = of_int \<lfloor>x\<rfloor> then Inr \<lfloor>x\<rfloor> else Inl RangeError)"
| "BigInt PosInfinity = Inl RangeError"
| "BigInt NegInfinity = Inl RangeError"
| "BigInt NaN = Inl RangeError"

text \<open>A value of type \<^verbatim>\<open>number | bigint\<close>, and \<^verbatim>\<open>Number(v)\<close> of it.\<close>

datatype js_numeric = Num js_number | Big int

fun Number :: "js_numeric \<Rightarrow> js_number" where
  "Number (Num v) = v"
| "Number (Big n) = round_binary64 (of_int n)"

section \<open>Amount codec\<close>

text \<open>
  \<^verbatim>\<open>formatUsdc = (amount) => Number(amount) / 1e6\<close> and
  \<^verbatim>\<open>parseUsdc = (amount) => BigInt(Math.floor(amount * 1e6))\<close>.
\<close>

definition formatUsdc :: "js_numeric \<Rightarrow> js_number" where
  "formatUsdc amount = js_divide_by (Number amount) 1000000"

definition parseUsdc :: "js_number \<Rightarrow> js_error + int" where
  "parseUsdc amount = BigInt (Math_floor (js_times amount (Finite 1000000)))"

text \<open>The codec as section 4.1 of the specification words it, on exact decimals.\<close>

definition toAtomic :: "real \<Rightarrow> int" where
  "toAtomic a = \<lfloor>a * 10 ^ 6\<rfloor>"

definition fromAtomic :: "int \<Rightarrow> real" where
  "fromAtomic u = of_int u / 10 ^ 6"

section \<open>Strings of integers\<close>

text \<open>\<^verbatim>\<open>toString()\<close> of a non-negative integer number and of a bigint: decimal digits.\<close>

definition digit_char :: "nat \<Rightarrow> char" where
  "digit_char d = ''0123456789'' ! (d mod 10)"

fun nat_toString :: "nat \<Rightarrow> string" where
  "nat_toString n =
     (if n < 10 then [digit_char n] else nat_toString (n div 10) @ [digit_char (n mod 10)])"

declare nat_toString.simps [simp del]

definition bigint_toString :: "int \<Rightarrow> string" where
  "bigint_toString i =
     (if i < 0 then CHR ''-'' # nat_toString (nat (- i)) else nat_toString (nat i))"

text \<open>\<^verbatim>\<open>toLowerCase()\<close>, on the ASCII letters the contract's status names are made of.\<close>

definition lower_char :: "char \<Rightarrow> char" where
  "lower_char c =
     (case map_of (zip ''ABCDEFGHIJKLMNOPQRSTUVWXYZ'' ''abcdefghijklmnopqrstuvwxyz'') c of
        Some l \<Rightarrow> l
      | None \<Rightarrow> c)"

definition toLowerCase :: "string \<Rightarrow> string" where
  "toLowerCase s = map lower_char s"

section \<open>Promises and the ledger client\<close>

text \<open>
  How a promise of an external collaborator (the ledger SDK, the wallet adapter, the
  signer) ends: fulfilled with a value; rejected with an object or a string, seen through
  its \<^verbatim>\<open>message\<close> property (\<open>None\<close> when that is undefined); rejected with null or
  undefined, of which reading \<^verbatim>\<open>message\<close> throws a TypeError; or never settled.
\<close>

datatype 'a promise = Fulfilled 'a | Rejected rejection | RejectedNullish | Pending

text \<open>How a call of an async function of this repository ends.\<close>

datatype 'a outcome = Returned 'a | Thrown js_error | Unsettled

text \<open>\<^verbatim>\<open>e.message || fallback\<close>: the empty string is falsy too.\<close>

definition message_or :: "rejection \<Rightarrow> string \<Rightarrow> string" where
  "message_or e fallback =
     (case message e of None \<Rightarrow> fallback | Some m \<Rightarrow> if m = [] then fallback else m)"

text \<open>
  \<^verbatim>\<open>Promise.all\<close>: rejected as soon as one promise is (the first of the list is taken;
  no caller looks at the reason), fulfilled with all the values in the order of the list
  when every promise is, unsettled otherwise.
\<close>

fun promise_all :: "'a promise list \<Rightarrow> 'a list promise" where
  "promise_all [] = Fulfilled []"
| "promise_all (p # ps) =
     (case p of
        Rejected e \<Rightarrow> Rejected e
      | RejectedNullish \<Rightarrow> RejectedNullish
      | Fulfilled x \<Rightarrow>
          (case promise_all ps of
             Fulfilled xs \<Rightarrow> Fulfilled (x # xs)
           | Rejected e \<Rightarrow> Rejected e
           | RejectedNullish \<Rightarrow> RejectedNullish
           | Pending \<Rightarrow> Pending)
      | Pending \<Rightarrow>
          (case promise_all ps of
             Rejected e \<Rightarrow> Rejected e
           | RejectedNullish \<Rightarrow> RejectedNullish
           | Fulfilled xs \<Rightarrow> Pending
           | Pending \<Rightarrow> Pending))"

definition CONTRACT_ADDRESS :: string where
  "CONTRACT_ADDRESS = ''0x4733658581be088fe23e99fce8a8de7e8fe975682f402c4394461521aa246706''"

definition MODULE_NAME :: string where
  "MODULE_NAME = ''lending''"

definition USDC_COIN :: string where
  "USDC_COIN =
     ''0xf22bede237a07e121b56d91a491eb7bcdfd1f5907926a9e58338f964a01b17fa::asset::USDC''"

datatype js_arg = ArgString string | ArgNumber js_number

text \<open>The payload of an entry or view function; \<open>function_id\<close> is its field \<^verbatim>\<open>function\<close>.\<close>

record InputGenerateTransactionPayloadData =
  function_id :: string
  typeArguments :: "string list"
  functionArguments :: "js_arg list"

definition createEntryFunctionPayload ::
  "string \<Rightarrow> string list \<Rightarrow> js_arg list \<Rightarrow> InputGenerateTransactionPayloadData" where
  "createEntryFunctionPayload functionName typeArgs args =
     \<lparr>function_id = CONTRACT_ADDRESS @ ''::'' @ MODULE_NAME @ ''::'' @ functionName,
      typeArguments = typeArgs,
      functionArguments = args\<rparr>"

record Account =
  address :: string

record PendingTransactionResponse =
  hash :: string

text \<open>
  The raw records the view functions of the contract answer with: offers, and requests
  or loans.
\<close>

datatype raw_offer = RawOffer
  (raw_id: string) (raw_lender: string) (raw_amount: js_numeric)
  (raw_interest_rate: js_numeric) (raw_duration_seconds: js_numeric)
  (raw_collateral_ratio: js_numeric) (raw_status: string)

datatype raw_request = RawRequest
  (rawreq_id: string) (rawreq_borrower: string) (rawreq_amount: js_numeric)
  (rawreq_duration_seconds: js_numeric) (rawreq_status: string) (rawreq_offer_id: string)

text \<open>
  Modelled from the spec: the type \<^verbatim>\<open>LoanRequest\<close> of the types module, whose declaration
  is not among the sources. A request has an identifier, the borrower's and the lender's
  identities, a loan amount, a collateral amount, two document hashes and a state
  (section 3); the fields bear the names the component reads them by, and \<^verbatim>\<open>status\<close> is
  the contract's numeric code, which the component compares with the number 0 (pending).
\<close>

record LoanRequest =
  request_id :: string
  borrower :: string
  lender :: string
  loan_amount :: string
  collateral_amount :: string
  borrower_details_hash :: string
  collateral_details_hash :: string
  status :: nat

text \<open>
  What the component reads of the registry resource \<^verbatim>\<open>PlatformConfig\<close>: the number of
  requests (an absent count makes the loop's test false at once, as the count 0 does) and
  the table \<^verbatim>\<open>loan_requests\<close> with its handle (\<open>None\<close> when the resource has no such
  field).
\<close>

record Table =
  handle :: string

record PlatformConfig =
  total_requests :: nat
  loan_requests :: "Table option"

text \<open>
  The answer of \<^verbatim>\<open>aptos.getAccountResource\<close>, which the component reads through its
  property \<^verbatim>\<open>data\<close>: an object \<^verbatim>\<open>{data: resource}\<close>, or the resource itself, which has no
  property \<^verbatim>\<open>data\<close>.
\<close>

datatype account_resource = Wrapped PlatformConfig | Bare PlatformConfig

fun data :: "account_resource \<Rightarrow> PlatformConfig option" where
  "data (Wrapped resource) = Some resource"
| "data (Bare resource) = None"

record TableItemRequest =
  key :: string
  key_type :: string
  value_type :: string

text \<open>
  The ledger client \<^verbatim>\<open>aptos\<close>: what each of its calls answers is a parameter of the
  model. Raw transactions, authenticators and committed transactions are opaque.
  \<^verbatim>\<open>aptos.view\<close> is untyped; its answers are taken well shaped, offers for
  \<^verbatim>\<open>get_all_offers\<close> and requests for the other views.
\<close>

record Aptos =
  transaction_build_simple ::
    "Account \<Rightarrow> InputGenerateTransactionPayloadData \<Rightarrow> string promise"
  transaction_sign :: "Account \<Rightarrow> string \<Rightarrow> string promise"
  transaction_submit_simple :: "string \<Rightarrow> string \<Rightarrow> PendingTransactionResponse promise"
  waitForTransaction :: "string \<Rightarrow> string promise"
  view_offers :: "InputGenerateTransactionPayloadData \<Rightarrow> raw_offer list promise"
  view_requests :: "InputGenerateTransactionPayloadData \<Rightarrow> raw_request list promise"
  getAccountResource :: "string \<Rightarrow> string \<Rightarrow> account_resource promise"
  getTableItem :: "string \<Rightarrow> TableItemRequest \<Rightarrow> LoanRequest promise"

text \<open>What a call does besides returning: the payloads built and the ledger calls made.\<close>

datatype event =
    PayloadBuilt InputGenerateTransactionPayloadData
  | BuildTransaction
  | SignTransaction
  | SubmitTransaction
  | WaitForTransaction string
  | ViewCall string

section \<open>Transaction submitter\<close>

text \<open>
  The result object of \<^verbatim>\<open>submitTransaction\<close>: \<^verbatim>\<open>{success: true, hash, response}\<close> or
  \<^verbatim>\<open>{success: false, error}\<close>.
\<close>

datatype tx_result = TxSuccess string string | TxFailure string

fun success :: "tx_result \<Rightarrow> bool" where
  "success (TxSuccess h r) = True"
| "success (TxFailure m) = False"

definition transaction_failed :: "rejection \<Rightarrow> tx_result" where
  "transaction_failed e = TxFailure (message_or e ''Transaction failed'')"

text \<open>
  \<^verbatim>\<open>submitTransaction\<close>: build, sign, submit and wait inside one \<^verbatim>\<open>try\<close>, whose
  \<^verbatim>\<open>catch\<close> reads \<^verbatim>\<open>error.message\<close> of the caught value and returns the failure
  object. When the caught value is null or undefined that read throws a TypeError, out of
  the \<^verbatim>\<open>catch\<close> and out of the function.
\<close>

definition submitTransaction ::
  "Aptos \<Rightarrow> Account \<Rightarrow> InputGenerateTransactionPayloadData
     \<Rightarrow> event list \<times> tx_result outcome" where
  "submitTransaction aptos sender payload =
     (case transaction_build_simple aptos sender payload of
        Rejected e \<Rightarrow> ([BuildTransaction], Returned (transaction_failed e))
      | RejectedNullish \<Rightarrow> ([BuildTransaction], Thrown TypeError)
      | Pending \<Rightarrow> ([BuildTransaction], Unsettled)
      | Fulfilled rawTxn \<Rightarrow>
     (case transaction_sign aptos sender rawTxn of
        Rejected e \<Rightarrow> ([BuildTransaction, SignTransaction], Returned (transaction_failed e))
      | RejectedNullish \<Rightarrow> ([BuildTransaction, SignTransaction], Thrown TypeError)
      | Pending \<Rightarrow> ([BuildTransaction, SignTransaction], Unsettled)
      | Fulfilled senderAuthenticator \<Rightarrow>
     (case transaction_submit_simple aptos rawTxn senderAuthenticator of
        Rejected e \<Rightarrow>
          ([BuildTransaction, SignTransaction, SubmitTransaction],
           Returned (transaction_failed e))
      | RejectedNullish \<Rightarrow>
          ([BuildTransaction, SignTransaction, SubmitTransaction], Thrown TypeError)
      | Pending \<Rightarrow> ([BuildTransaction, SignTransaction, SubmitTransaction], Unsettled)
      | Fulfilled pendingTxn \<Rightarrow>
     (case waitForTransaction aptos (hash pendingTxn) of
        Rejected e \<Rightarrow>
          ([BuildTransaction, SignTransaction, SubmitTransaction,
            WaitForTransaction (hash pendingTxn)],
           Returned (transaction_failed e))
      | RejectedNullish \<Rightarrow>
          ([BuildTransaction, SignTransaction, SubmitTransaction,
            WaitForTransaction (hash pendingTxn)],
           Thrown TypeError)
      | Pending \<Rightarrow>
          ([BuildTransaction, SignTransaction, SubmitTransaction,
            WaitForTransaction (hash pendingTxn)],
           Unsettled)
      | Fulfilled response \<Rightarrow>
          ([BuildTransaction, SignTransaction, SubmitTransaction,
            WaitForTransaction (hash pendingTxn)],
           Returned (TxSuccess (hash pendingTxn) response))))))"

section \<open>The lending hook\<close>

text \<open>What \<^verbatim>\<open>useLendingContract\<close> reads of the wallet context.\<close>

record WalletContext =
  account :: "Account option"
  isConnected :: bool

definition ensureConnected :: "WalletContext \<Rightarrow> js_error + Account" where
  "ensureConnected ctx =
     (case account ctx of
        None \<Rightarrow> Inl (Error ''Please connect your wallet first'')
      | Some a \<Rightarrow>
          if isConnected ctx then Inr a else Inl (Error ''Please connect your wallet first''))"

text \<open>The tail of every action: the payload is built, then submitted.\<close>

definition build_and_submit ::
  "Aptos \<Rightarrow> Account \<Rightarrow> InputGenerateTransactionPayloadData
     \<Rightarrow> event list \<times> tx_result outcome" where
  "build_and_submit aptos currentAccount payload =
     (PayloadBuilt payload # fst (submitTransaction aptos currentAccount payload),
      snd (submitTransaction aptos currentAccount payload))"

definition createLoanOffer ::
  "Aptos \<Rightarrow> WalletContext \<Rightarrow> js_number \<Rightarrow> js_number \<Rightarrow> js_number \<Rightarrow> js_number
     \<Rightarrow> event list \<times> tx_result outcome" where
  "createLoanOffer aptos ctx amount interestRate duration collateralRatio =
     (case ensureConnected ctx of
        Inl e \<Rightarrow> ([], Thrown e)
      | Inr currentAccount \<Rightarrow>
          (case parseUsdc amount of
             Inl e \<Rightarrow> ([], Thrown e)
           | Inr usdcAmount \<Rightarrow>
               build_and_submit aptos currentAccount
                 (createEntryFunctionPayload ''create_offer'' [USDC_COIN]
                   [ArgString (bigint_toString usdcAmount), ArgNumber interestRate,
                    ArgNumber duration, ArgNumber collateralRatio])))"

definition cancelLoanOffer ::
  "Aptos \<Rightarrow> WalletContext \<Rightarrow> string \<Rightarrow> event list \<times> tx_result outcome" where
  "cancelLoanOffer aptos ctx offerId =
     (case ensureConnected ctx of
        Inl e \<Rightarrow> ([], Thrown e)
      | Inr currentAccount \<Rightarrow>
          build_and_submit aptos currentAccount
            (createEntryFunctionPayload ''cancel_offer'' [USDC_COIN] [ArgString offerId]))"

definition requestLoan ::
  "Aptos \<Rightarrow> WalletContext \<Rightarrow> string \<Rightarrow> js_number \<Rightarrow> js_number
     \<Rightarrow> event list \<times> tx_result outcome" where
  "requestLoan aptos ctx offerId amount collateralAmount =
     (case ensureConnected ctx of
        Inl e \<Rightarrow> ([], Thrown e)
      | Inr currentAccount \<Rightarrow>
          (case parseUsdc amount of
             Inl e \<Rightarrow> ([], Thrown e)
           | Inr usdcAmount \<Rightarrow>
               (case parseUsdc collateralAmount of
                  Inl e \<Rightarrow> ([], Thrown e)
                | Inr usdcCollateral \<Rightarrow>
                    build_and_submit aptos currentAccount
                      (createEntryFunctionPayload ''request_loan'' [USDC_COIN]
                        [ArgString offerId, ArgString (bigint_toString usdcAmount),
                         ArgString (bigint_toString usdcCollateral)]))))"

definition approveLoanRequest ::
  "Aptos \<Rightarrow> WalletContext \<Rightarrow> string \<Rightarrow> event list \<times> tx_result outcome" where
  "approveLoanRequest aptos ctx requestId =
     (case ensureConnected ctx of
        Inl e \<Rightarrow> ([], Thrown e)
      | Inr currentAccount \<Rightarrow>
          build_and_submit aptos currentAccount
            (createEntryFunctionPayload ''approve_loan'' [USDC_COIN] [ArgString requestId]))"

definition repayLoan ::
  "Aptos \<Rightarrow> WalletContext \<Rightarrow> string \<Rightarrow> js_number \<Rightarrow> event list \<times> tx_result outcome" where
  "repayLoan aptos ctx loanId amount =
     (case ensureConnected ctx of
        Inl e \<Rightarrow> ([], Thrown e)
      | Inr currentAccount \<Rightarrow>
          (case parseUsdc amount of
             Inl e \<Rightarrow> ([], Thrown e)
           | Inr usdcAmount \<Rightarrow>
               build_and_submit aptos currentAccount
                 (createEntryFunctionPayload ''repay_loan'' [USDC_COIN]
                   [ArgString loanId, ArgString (bigint_toString usdcAmount)])))"

text \<open>The hook's own \<^verbatim>\<open>LoanOffer\<close> and \<^verbatim>\<open>LoanRequest\<close>, fields in the source's order.\<close>

datatype HookLoanOffer = HookLoanOffer
  (offer_id: string) (offer_lender: string) (offer_amount: js_number)
  (offer_interestRate: js_number) (offer_duration: js_number)
  (offer_collateralRatio: js_number) (offer_status: string)

datatype HookLoanRequest = HookLoanRequest
  (loan_id: string) (loan_borrower: string) (loan_amount_usd: js_number)
  (loan_duration: js_number) (loan_status: string) (loan_offerId: string)

definition project_offer :: "raw_offer \<Rightarrow> HookLoanOffer" where
  "project_offer offer =
     HookLoanOffer (raw_id offer) (raw_lender offer)
       (formatUsdc (raw_amount offer))
       (js_divide_by (Number (raw_interest_rate offer)) 100)
       (Number (raw_duration_seconds offer))
       (js_divide_by (Number (raw_collateral_ratio offer)) 100)
       (toLowerCase (raw_status offer))"

definition project_request :: "raw_request \<Rightarrow> HookLoanRequest" where
  "project_request request =
     HookLoanRequest (rawreq_id request) (rawreq_borrower request)
       (formatUsdc (rawreq_amount request))
       (Number (rawreq_duration_seconds request))
       (toLowerCase (rawreq_status request))
       (rawreq_offer_id request)"

definition view_function :: "string \<Rightarrow> string" where
  "view_function name = CONTRACT_ADDRESS @ ''::'' @ MODULE_NAME @ ''::'' @ name"

definition getLoanOffers :: "Aptos \<Rightarrow> WalletContext \<Rightarrow> event list \<times> HookLoanOffer list outcome" where
  "getLoanOffers aptos ctx =
     (case account ctx of
        None \<Rightarrow> ([], Returned [])
      | Some a \<Rightarrow>
          (case view_offers aptos
                  \<lparr>function_id = view_function ''get_all_offers'',
                   typeArguments = [USDC_COIN], functionArguments = []\<rparr> of
             Fulfilled response \<Rightarrow>
               ([ViewCall (view_function ''get_all_offers'')],
                Returned (map project_offer response))
           | Rejected e \<Rightarrow>
               ([ViewCall (view_function ''get_all_offers'')],
                Thrown (Error ''Failed to fetch loan offers''))
           | RejectedNullish \<Rightarrow>
               ([ViewCall (view_function ''get_all_offers'')],
                Thrown (Error ''Failed to fetch loan offers''))
           | Pending \<Rightarrow> ([ViewCall (view_function ''get_all_offers'')], Unsettled)))"

text \<open>\<^verbatim>\<open>offerId\<close> is optional; the undefined and the empty string are falsy.\<close>

definition getLoanRequests ::
  "Aptos \<Rightarrow> WalletContext \<Rightarrow> string option \<Rightarrow> event list \<times> HookLoanRequest list outcome" where
  "getLoanRequests aptos ctx offerId =
     (case account ctx of
        None \<Rightarrow> ([], Returned [])
      | Some a \<Rightarrow>
          (let payload =
                 (case offerId of
                    None \<Rightarrow>
                      \<lparr>function_id = view_function ''get_all_requests'',
                       typeArguments = [USDC_COIN], functionArguments = []\<rparr>
                  | Some oid \<Rightarrow>
                      if oid = [] then
                        \<lparr>function_id = view_function ''get_all_requests'',
                         typeArguments = [USDC_COIN], functionArguments = []\<rparr>
                      else
                        \<lparr>function_id = view_function ''get_offer_requests'',
                         typeArguments = [USDC_COIN], functionArguments = [ArgString oid]\<rparr>)
           in case view_requests aptos payload of
                Fulfilled response \<Rightarrow>
                  ([ViewCall (function_id payload)], Returned (map project_request response))
              | Rejected e \<Rightarrow>
                  ([ViewCall (function_id payload)],
                   Thrown (Error ''Failed to fetch loan requests''))
              | RejectedNullish \<Rightarrow>
                  ([ViewCall (function_id payload)],
                   Thrown (Error ''Failed to fetch loan requests''))
              | Pending \<Rightarrow> ([ViewCall (function_id payload)], Unsettled)))"

definition getUserLoans ::
  "Aptos \<Rightarrow> WalletContext \<Rightarrow> event list \<times> HookLoanRequest list outcome" where
  "getUserLoans aptos ctx =
     (case account ctx of
        None \<Rightarrow> ([], Returned [])
      | Some a \<Rightarrow>
          (case view_requests aptos
                  \<lparr>function_id = view_function ''get_user_loans'',
                   typeArguments = [USDC_COIN],
                   functionArguments = [ArgString (address a)]\<rparr> of
             Fulfilled response \<Rightarrow>
               ([ViewCall (view_function ''get_user_loans'')],
                Returned (map project_request response))
           | Rejected e \<Rightarrow>
               ([ViewCall (view_function ''get_user_loans'')],
                Thrown (Error ''Failed to fetch user loans''))
           | RejectedNullish \<Rightarrow>
               ([ViewCall (view_function ''get_user_loans'')],
                Thrown (Error ''Failed to fetch user loans''))
           | Pending \<Rightarrow> ([ViewCall (view_function ''get_user_loans'')], Unsettled)))"

section \<open>The lender's list of pending requests\<close>

text \<open>
  The state of the component \<^verbatim>\<open>LoanRequestsList\<close>. An entry of \<^verbatim>\<open>actionStatus\<close> is the
  object \<^verbatim>\<open>{loading, error}\<close>; an entry of \<^verbatim>\<open>approvalFiles\<close> is a file (its name) or
  null.
\<close>

datatype action_status = ActionStatus (status_loading: bool) (status_error: "string option")

record LoanRequestsList =
  requests :: "LoanRequest list"
  loading :: bool
  error :: "string option"
  actionStatus :: "string \<rightharpoonup> action_status"
  approvalFiles :: "string \<rightharpoonup> string option"

text \<open>
  The state \<^verbatim>\<open>fetchRequests\<close> leaves when its \<^verbatim>\<open>catch\<close> and \<^verbatim>\<open>finally\<close> blocks have run.
\<close>

definition fetch_failed :: "LoanRequestsList \<Rightarrow> LoanRequestsList" where
  "fetch_failed st =
     st\<lparr>loading := False,
        error := Some
          ''Failed to fetch loan requests. Is the module deployed and initialized?''\<rparr>"

text \<open>
  \<^verbatim>\<open>fetchRequests\<close>, from the state it starts in to the state it leaves. The module address
  comes from the process environment and is a parameter. Inside the \<^verbatim>\<open>try\<close>, the count
  is read as \<^verbatim>\<open>platformConfig.data.total_requests\<close> and the handle as
  \<^verbatim>\<open>platformConfig.data.loan_requests.handle\<close>: when \<^verbatim>\<open>data\<close> or \<^verbatim>\<open>loan_requests\<close> is
  undefined the read throws a TypeError, which the \<^verbatim>\<open>catch\<close> turns into the error state
  before any table item is asked for. The loop asks for the keys
  \<open>0, \<dots>, total_requests - 1\<close> in this order, and the filter runs on the fetched list.
\<close>

definition fetchRequests ::
  "string \<Rightarrow> Aptos \<Rightarrow> Account option \<Rightarrow> LoanRequestsList \<Rightarrow> LoanRequestsList" where
  "fetchRequests MODULE_ADDRESS aptos acct st =
     (case acct of
        None \<Rightarrow> st
      | Some a \<Rightarrow>
          (case getAccountResource aptos MODULE_ADDRESS
                  (MODULE_ADDRESS @ ''::lending::PlatformConfig'') of
             Rejected e \<Rightarrow> fetch_failed st
           | RejectedNullish \<Rightarrow> fetch_failed st
           | Pending \<Rightarrow> st\<lparr>loading := True, error := None\<rparr>
           | Fulfilled platformConfig \<Rightarrow>
               (case data platformConfig of
                  None \<Rightarrow> fetch_failed st
                | Some resource \<Rightarrow>
                    (case loan_requests resource of
                       None \<Rightarrow> fetch_failed st
                     | Some loanRequestsTable \<Rightarrow>
                         (case promise_all
                                 (map (\<lambda>i. getTableItem aptos (handle loanRequestsTable)
                                            \<lparr>key = nat_toString i, key_type = ''u64'',
                                             value_type =
                                               MODULE_ADDRESS @ ''::lending::LoanRequest''\<rparr>)
                                    [0..<total_requests resource]) of
                            Rejected e \<Rightarrow> fetch_failed st
                          | RejectedNullish \<Rightarrow> fetch_failed st
                          | Pending \<Rightarrow> st\<lparr>loading := True, error := None\<rparr>
                          | Fulfilled fetchedRequests \<Rightarrow>
                              st\<lparr>loading := False, error := None,
                                 requests :=
                                   filter (\<lambda>req. lender req = address a \<and> status req = 0)
                                     fetchedRequests\<rparr>)))))"

text \<open>The transaction \<^verbatim>\<open>{data: {function, functionArguments}}\<close> handed to the wallet.\<close>

datatype InputTransactionData = InputTransactionData string "js_arg list"

text \<open>
  \<^verbatim>\<open>handleApprove\<close> runs in two turns of the event loop: up to its first \<^verbatim>\<open>await\<close>,
  and from the moment the awaited calls have settled. \<open>handleApprove_begin\<close> is the first
  turn; it answers the transaction to sign when there is one. \<^verbatim>\<open>Date.now()\<close> is the
  parameter \<open>now\<close>.
\<close>

definition handleApprove_begin ::
  "string \<Rightarrow> Account option \<Rightarrow> nat \<Rightarrow> LoanRequestsList \<Rightarrow> string
     \<Rightarrow> LoanRequestsList \<times> InputTransactionData option" where
  "handleApprove_begin MODULE_ADDRESS acct now st requestId =
     (case acct of
        None \<Rightarrow> (st, None)
      | Some a \<Rightarrow>
          (case approvalFiles st requestId of
             Some (Some approvalFile) \<Rightarrow>
               (st\<lparr>actionStatus := (actionStatus st)(requestId \<mapsto> ActionStatus True None)\<rparr>,
                Some (InputTransactionData
                        (MODULE_ADDRESS @ ''::lending::approve_loan_request'')
                        [ArgString requestId,
                         ArgString (''dummy_approval_'' @ nat_toString now)]))
           | _ \<Rightarrow>
               (st\<lparr>actionStatus := (actionStatus st)(requestId \<mapsto>
                     ActionStatus False (Some ''Please upload an approval letter.''))\<rparr>,
                None)))"

text \<open>
  The two awaited calls, \<^verbatim>\<open>signAndSubmitTransaction\<close> of the wallet and
  \<^verbatim>\<open>aptos.waitForTransaction\<close>, as one promise.
\<close>

definition sign_and_wait ::
  "(InputTransactionData \<Rightarrow> PendingTransactionResponse promise) \<Rightarrow> Aptos
     \<Rightarrow> InputTransactionData \<Rightarrow> string promise" where
  "sign_and_wait signAndSubmitTransaction aptos transaction =
     (case signAndSubmitTransaction transaction of
        Rejected e \<Rightarrow> Rejected e
      | RejectedNullish \<Rightarrow> RejectedNullish
      | Pending \<Rightarrow> Pending
      | Fulfilled response \<Rightarrow> waitForTransaction aptos (hash response))"

text \<open>
  The second turn: the rest of the \<^verbatim>\<open>try\<close> block, which ends by calling
  \<^verbatim>\<open>fetchRequests\<close>, or the \<^verbatim>\<open>catch\<close> block. The \<^verbatim>\<open>catch\<close> reads \<^verbatim>\<open>e.message\<close> inside
  the state updater: of a null or undefined \<^verbatim>\<open>e\<close> the read throws, and no entry is set.
\<close>

definition handleApprove_settle ::
  "string \<Rightarrow> Aptos \<Rightarrow> Account option \<Rightarrow> LoanRequestsList \<Rightarrow> string \<Rightarrow> string promise
     \<Rightarrow> LoanRequestsList" where
  "handleApprove_settle MODULE_ADDRESS aptos acct st requestId settled =
     (case settled of
        Fulfilled response \<Rightarrow>
          fetchRequests MODULE_ADDRESS aptos acct
            (st\<lparr>actionStatus := (actionStatus st)(requestId \<mapsto> ActionStatus False None)\<rparr>)
      | Rejected e \<Rightarrow>
          st\<lparr>actionStatus := (actionStatus st)(requestId \<mapsto>
               ActionStatus False (Some (message_or e ''An error occurred.'')))\<rparr>
      | RejectedNullish \<Rightarrow> st
      | Pending \<Rightarrow> st)"

text \<open>One call of \<^verbatim>\<open>handleApprove\<close> run to its end with nothing in between.\<close>

definition handleApprove ::
  "string \<Rightarrow> Aptos \<Rightarrow> (InputTransactionData \<Rightarrow> PendingTransactionResponse promise)
     \<Rightarrow> Account option \<Rightarrow> nat \<Rightarrow> LoanRequestsList \<Rightarrow> string \<Rightarrow> LoanRequestsList" where
  "handleApprove MODULE_ADDRESS aptos signAndSubmitTransaction acct now st requestId =
     (case handleApprove_begin MODULE_ADDRESS acct now st requestId of
        (st1, None) \<Rightarrow> st1
      | (st1, Some transaction) \<Rightarrow>
          handleApprove_settle MODULE_ADDRESS aptos acct st1 requestId
            (sign_and_wait signAndSubmitTransaction aptos transaction))"

text \<open>
  Approve actions in flight together: the turns of several calls, in any order. A click
  runs the first turn of a call; a settlement runs the second turn of the call on that
  request id (with the refresh it starts run to its end: \<^verbatim>\<open>fetchRequests\<close> sets the list,
  the loading flag and the list's error, never \<^verbatim>\<open>actionStatus\<close>).
\<close>

datatype approve_turn = Click string nat | Settle string "string promise"

fun turn_id :: "approve_turn \<Rightarrow> string" where
  "turn_id (Click requestId now) = requestId"
| "turn_id (Settle requestId settled) = requestId"

fun run_approve_turn ::
  "string \<Rightarrow> Aptos \<Rightarrow> Account option \<Rightarrow> LoanRequestsList \<Rightarrow> approve_turn
     \<Rightarrow> LoanRequestsList" where
  "run_approve_turn MODULE_ADDRESS aptos acct st (Click requestId now) =
     fst (handleApprove_begin MODULE_ADDRESS acct now st requestId)"
| "run_approve_turn MODULE_ADDRESS aptos acct st (Settle requestId settled) =
     handleApprove_settle MODULE_ADDRESS aptos acct st requestId settled"

fun approve_turns ::
  "string \<Rightarrow> Aptos \<Rightarrow> Account option \<Rightarrow> LoanRequestsList \<Rightarrow> approve_turn list
     \<Rightarrow> LoanRequestsList" where
  "approve_turns MODULE_ADDRESS aptos acct st [] = st"
| "approve_turns MODULE_ADDRESS aptos acct st (t # ts) =
     approve_turns MODULE_ADDRESS aptos acct (run_approve_turn MODULE_ADDRESS aptos acct st t) ts"

section \<open>Session state\<close>

text \<open>
  The state of \<^verbatim>\<open>WalletProviderInner\<close> and the calls it has forwarded to the wallet
  adapter. \<^verbatim>\<open>connect\<close> and \<^verbatim>\<open>disconnect\<close> run in two turns each: up to the \<^verbatim>\<open>await\<close> of
  the adapter's call, and from its settlement (\<^verbatim>\<open>catch\<close> and \<^verbatim>\<open>finally\<close>).
\<close>

datatype adapter_call = ConnectWallet string | DisconnectWallet

record WalletProviderInner =
  accountObj :: "Account option"
  isConnecting :: bool
  adapter_calls :: "adapter_call list"

definition connect_begin :: "WalletProviderInner \<Rightarrow> string \<Rightarrow> WalletProviderInner" where
  "connect_begin st walletName =
     st\<lparr>isConnecting := True, adapter_calls := adapter_calls st @ [ConnectWallet walletName]\<rparr>"

definition connect_settle ::
  "WalletProviderInner \<Rightarrow> unit promise \<Rightarrow> WalletProviderInner \<times> unit outcome" where
  "connect_settle st settled =
     (case settled of
        Fulfilled u \<Rightarrow> (st\<lparr>isConnecting := False\<rparr>, Returned ())
      | Rejected e \<Rightarrow> (st\<lparr>isConnecting := False\<rparr>, Thrown (Rethrown e))
      | RejectedNullish \<Rightarrow> (st\<lparr>isConnecting := False\<rparr>, Thrown RethrownNullish)
      | Pending \<Rightarrow> (st, Unsettled))"

definition disconnect_begin :: "WalletProviderInner \<Rightarrow> WalletProviderInner" where
  "disconnect_begin st =
     st\<lparr>isConnecting := True, adapter_calls := adapter_calls st @ [DisconnectWallet]\<rparr>"

definition disconnect_settle ::
  "WalletProviderInner \<Rightarrow> unit promise \<Rightarrow> WalletProviderInner \<times> unit outcome" where
  "disconnect_settle st settled =
     (case settled of
        Fulfilled u \<Rightarrow> (st\<lparr>accountObj := None, isConnecting := False\<rparr>, Returned ())
      | Rejected e \<Rightarrow> (st\<lparr>isConnecting := False\<rparr>, Thrown (Rethrown e))
      | RejectedNullish \<Rightarrow> (st\<lparr>isConnecting := False\<rparr>, Thrown RethrownNullish)
      | Pending \<Rightarrow> (st, Unsettled))"

datatype session_turn =
    Connect string
  | ConnectSettled "unit promise"
  | Disconnect
  | DisconnectSettled "unit promise"

fun run_session_turn :: "WalletProviderInner \<Rightarrow> session_turn \<Rightarrow> WalletProviderInner" where
  "run_session_turn st (Connect walletName) = connect_begin st walletName"
| "run_session_turn st (ConnectSettled settled) = fst (connect_settle st settled)"
| "run_session_turn st Disconnect = disconnect_begin st"
| "run_session_turn st (DisconnectSettled settled) = fst (disconnect_settle st settled)"

fun session_turns :: "WalletProviderInner \<Rightarrow> session_turn list \<Rightarrow> WalletProviderInner" where
  "session_turns st [] = st"
| "session_turns st (t # ts) = session_turns (run_session_turn st t) ts"

fun is_call :: "session_turn \<Rightarrow> bool" where
  "is_call (Connect walletName) = True"
| "is_call Disconnect = True"
| "is_call (ConnectSettled settled) = False"
| "is_call (DisconnectSettled settled) = False"

section \<open>Example inputs\<close>

text \<open>
  A ledger on which every call succeeds, with five loan requests under the keys 0 to 4:
  requests 2 and 3 are addressed to the lender \<^verbatim>\<open>0xb0b\<close>, request 3 is approved
  already (status 1), the others are pending. Its client answers a resource read with
  an object \<^verbatim>\<open>{data: resource}\<close>, the shape the component reads.
\<close>

definition example_request :: "nat \<Rightarrow> LoanRequest" where
  "example_request i =
     \<lparr>request_id = nat_toString i, borrower = ''0xca11'',
      lender = (if i = 2 then ''0xb0b'' else if i = 3 then ''0xb0b'' else ''0xa11ce''),
      loan_amount = ''1000000'', collateral_amount = ''1500000'',
      borrower_details_hash = ''dummy_borrower_1'',
      collateral_details_hash = ''dummy_collateral_1'',
      status = (if i = 3 then 1 else 0)\<rparr>"

definition example_table :: "string \<Rightarrow> TableItemRequest \<Rightarrow> LoanRequest promise" where
  "example_table tableHandle item =
     (if key item = ''0'' then Fulfilled (example_request 0)
      else if key item = ''1'' then Fulfilled (example_request 1)
      else if key item = ''2'' then Fulfilled (example_request 2)
      else if key item = ''3'' then Fulfilled (example_request 3)
      else if key item = ''4'' then Fulfilled (example_request 4)
      else Rejected (Rejection (Some ''Table Item not found'')))"

definition example_aptos :: Aptos where
  "example_aptos =
     \<lparr>transaction_build_simple = (\<lambda>sender payload. Fulfilled ''raw''),
      transaction_sign = (\<lambda>signer rawTxn. Fulfilled ''signature''),
      transaction_submit_simple = (\<lambda>rawTxn auth. Fulfilled \<lparr>hash = ''0xabc''\<rparr>),
      waitForTransaction = (\<lambda>h. Fulfilled ''committed''),
      view_offers = (\<lambda>payload.
        Fulfilled [RawOffer ''7'' ''0xb0b'' (Big 2500000) (Big 550) (Big 86400) (Big 15000)
                     ''ACTIVE'']),
      view_requests = (\<lambda>payload. Fulfilled []),
      getAccountResource = (\<lambda>addr resourceType.
        Fulfilled (Wrapped \<lparr>total_requests = 5,
                             loan_requests = Some \<lparr>handle = ''0x7ab1e''\<rparr>\<rparr>)),
      getTableItem = example_table\<rparr>"

text \<open>The same ledger with one stage of a submission failing.\<close>

definition build_fails_aptos :: Aptos where
  "build_fails_aptos =
     example_aptos\<lparr>transaction_build_simple :=
       (\<lambda>sender payload. Rejected (Rejection (Some ''Account not found'')))\<rparr>"

definition sign_fails_aptos :: Aptos where
  "sign_fails_aptos =
     example_aptos\<lparr>transaction_sign := (\<lambda>signer rawTxn. Rejected (Rejection None))\<rparr>"

definition submit_fails_aptos :: Aptos where
  "submit_fails_aptos =
     example_aptos\<lparr>transaction_submit_simple :=
       (\<lambda>rawTxn auth. Rejected (Rejection (Some ''Transaction 0xabc timed out'')))\<rparr>"

text \<open>The signing is rejected with undefined.\<close>

definition undefined_rejection_aptos :: Aptos where
  "undefined_rejection_aptos =
     example_aptos\<lparr>transaction_sign := (\<lambda>signer rawTxn. RejectedNullish)\<rparr>"


text \<open>The confirmation wait gives up: the ledger client rejects the awaited promise.\<close>

definition timeout_aptos :: Aptos where
  "timeout_aptos =
     example_aptos\<lparr>waitForTransaction :=
       (\<lambda>h. Rejected (Rejection (Some ''Transaction 0xabc timed out'')))\<rparr>"

definition example_account :: Account where
  "example_account = \<lparr>address = ''0xb0b''\<rparr>"

definition example_payload :: InputGenerateTransactionPayloadData where
  "example_payload = createEntryFunctionPayload ''cancel_offer'' [USDC_COIN] [ArgString ''7'']"

definition connected_context :: WalletContext where
  "connected_context = \<lparr>account = Some example_account, isConnected = True\<rparr>"

definition disconnected_context :: WalletContext where
  "disconnected_context = \<lparr>account = None, isConnected = False\<rparr>"

definition example_list :: LoanRequestsList where
  "example_list =
     \<lparr>requests = [], loading = True, error = None,
      actionStatus = Map.empty,
      approvalFiles = [''2'' \<mapsto> Some ''letter2.pdf'', ''3'' \<mapsto> Some ''letter3.pdf'']\<rparr>"

definition example_session :: WalletProviderInner where
  "example_session = \<lparr>accountObj = None, isConnecting = False, adapter_calls = []\<rparr>"

section \<open>Evaluation of the number model\<close>

lemma bit_length_numeral [simp]:
  "bit_length 0 = 0"
  "bit_length (Suc 0) = 1"
  "bit_length 1 = 1"
  "bit_length (numeral (Num.Bit0 k)) = Suc (bit_length (numeral k))"
  "bit_length (numeral (Num.Bit1 k)) = Suc (bit_length (numeral k))"
  by (subst bit_length.simps, simp add: numeral_Bit0_div_2 numeral_Bit1_div_2)+

lemmas binary64_eval =
  round_binary64_def floor_log2_def pow2_def round_half_even_def Let_def

lemma literal_8_2:
  "js_literal (41 / 5) = Finite (2308094809027379 / 281474976710656)"
  by (simp add: js_literal_def binary64_eval)

lemma parseUsdc_double_8_2:
  "parseUsdc (Finite (2308094809027379 / 281474976710656)) = Inr 8199999"
  by (simp add: parseUsdc_def binary64_eval)

lemma formatUsdc_8199999:
  "formatUsdc (Big 8199999) = Finite (4616189055104805 / 562949953421312)"
  by (simp add: formatUsdc_def binary64_eval)

lemma literal_8_199999:
  "js_literal (8199999 / 1000000) = Finite (4616189055104805 / 562949953421312)"
  by (simp add: js_literal_def binary64_eval)

text \<open>
  The example of section 8 of the specification does round-trip: \<^verbatim>\<open>123.456789\<close>
  becomes 123456789 atomic units and comes back as \<^verbatim>\<open>123.456789\<close>.
\<close>

lemma literal_123_456789:
  "js_literal (123456789 / 1000000) = Finite (8687499202136843 / 70368744177664)"
  by (simp add: js_literal_def binary64_eval)

lemma roundtrip_123_456789:
  "parseUsdc (js_literal (123456789 / 1000000)) = Inr 123456789
   \<and> formatUsdc (Big 123456789) = js_literal (123456789 / 1000000)"
  by (simp add: parseUsdc_def formatUsdc_def literal_123_456789 binary64_eval)

section \<open>Properties of the rounding\<close>

lemma bit_length_upper: "n < 2 ^ bit_length n"
proof (induction n rule: bit_length.induct)
  case (1 n)
  show ?case
  proof (cases "n = 0")
    case True
    then show ?thesis by (subst bit_length.simps) simp
  next
    case False
    with 1 have "n div 2 < 2 ^ bit_length (n div 2)" by simp
    then have "n < 2 * 2 ^ bit_length (n div 2)" by linarith
    with False show ?thesis by (subst bit_length.simps) simp
  qed
qed

lemma bit_length_lower: "0 < n \<Longrightarrow> 2 ^ (bit_length n - 1) \<le> n"
proof (induction n rule: bit_length.induct)
  case (1 n)
  show ?case
  proof (cases "n div 2 = 0")
    case True
    with 1(2) have "bit_length n = 1"
      by (subst bit_length.simps, subst bit_length.simps) simp
    with 1(2) show ?thesis by simp
  next
    case False
    with 1 have ih: "2 ^ (bit_length (n div 2) - 1) \<le> n div 2" by simp
    from False have pos: "0 < bit_length (n div 2)"
      by (subst bit_length.simps) simp
    have "bit_length n = Suc (bit_length (n div 2))"
      using 1(2) by (subst bit_length.simps) simp
    then have "(2::nat) ^ (bit_length n - 1) = 2 * 2 ^ (bit_length (n div 2) - 1)"
      using pos by (cases "bit_length (n div 2)") simp_all
    with ih show ?thesis by linarith
  qed
qed

lemma bit_length_pos: "0 < n \<Longrightarrow> 0 < bit_length n"
  by (subst bit_length.simps) simp

lemma bit_length_le: "n < 2 ^ k \<Longrightarrow> bit_length n \<le> k"
proof (cases "n = 0")
  case True
  then show ?thesis by (subst bit_length.simps) simp
next
  case False
  assume "n < 2 ^ k"
  moreover have "2 ^ (bit_length n - 1) \<le> n"
    using False by (intro bit_length_lower) simp
  ultimately have "(2::nat) ^ (bit_length n - 1) < 2 ^ k" by (rule le_less_trans [rotated])
  then have "bit_length n - 1 < k" by simp
  then show ?thesis by simp
qed

lemma pow2_pos: "0 < pow2 e"
  by (simp add: pow2_def)

lemma pow2_mono: "a \<le> b \<Longrightarrow> pow2 a \<le> pow2 b"
proof -
  have eq: "pow2 e = 2 powi e" for e
    by (simp add: pow2_def power_int_def inverse_eq_divide power_one_over)
  show "a \<le> b \<Longrightarrow> pow2 a \<le> pow2 b"
    by (simp add: eq power_int_increasing)
qed

text \<open>The exponent \<open>floor_log2\<close> finds is not too large: \<open>2\<^sup>e \<le> x\<close>.\<close>

lemma floor_log2_lower:
  assumes "0 < x"
  shows "pow2 (floor_log2 x) \<le> x"
proof (cases "1 \<le> x")
  case True
  let ?n = "nat \<lfloor>x\<rfloor>"
  from True have n: "0 < ?n" by simp
  have "real (2 ^ (bit_length ?n - 1)) \<le> real ?n"
    using bit_length_lower [OF n] by (simp only: of_nat_le_iff)
  also have "real ?n \<le> x" using True by simp
  finally have "2 ^ (bit_length ?n - 1) \<le> x" by simp
  moreover have "pow2 (floor_log2 x) = 2 ^ (bit_length ?n - 1)"
    using True bit_length_pos [OF n]
    by (simp add: floor_log2_def pow2_def nat_diff_distrib')
  ultimately show ?thesis by simp
next
  case False
  define j where "j = \<lceil>1 / x\<rceil>"
  define k where "k = nat (j - 1)"
  from False assms have "1 < 1 / x" by simp
  then have c: "2 \<le> j" unfolding j_def by linarith
  have "1 / x \<le> of_int j" unfolding j_def by simp
  also have "of_int j = real k + 1" using c by (simp add: k_def)
  also have "real k + 1 \<le> real (2 ^ bit_length k)"
    using bit_length_upper [of k] by (metis Suc_leI of_nat_Suc of_nat_le_iff add.commute)
  finally have "1 / x \<le> 2 ^ bit_length k" by simp
  then have "1 / 2 ^ bit_length k \<le> x"
    using assms by (simp add: field_simps)
  moreover have "pow2 (floor_log2 x) = 1 / 2 ^ bit_length k"
  proof -
    have "0 < k" using c by (simp add: k_def)
    from bit_length_pos [OF this] show ?thesis
      using False by (simp add: floor_log2_def pow2_def k_def j_def)
  qed
  ultimately show ?thesis by simp
qed

text \<open>And it is not too small: \<open>x < 2\<^sup>e\<^sup>+\<^sup>1\<close>.\<close>

lemma floor_log2_upper:
  assumes "0 < x"
  shows "x < 2 * pow2 (floor_log2 x)"
proof (cases "1 \<le> x")
  case True
  define n where "n = nat \<lfloor>x\<rfloor>"
  from True have n: "0 < n" by (simp add: n_def)
  have "x < real n + 1" using True unfolding n_def by linarith
  also have "real n + 1 \<le> real (2 ^ bit_length n)"
    using bit_length_upper [of n] by (metis Suc_leI of_nat_Suc of_nat_le_iff add.commute)
  also have "real (2 ^ bit_length n) = 2 * 2 ^ (bit_length n - 1)"
    using bit_length_pos [OF n] by (cases "bit_length n") simp_all
  finally have "x < 2 * 2 ^ (bit_length n - 1)" .
  moreover have "pow2 (floor_log2 x) = 2 ^ (bit_length n - 1)"
    using True bit_length_pos [OF n]
    by (simp add: floor_log2_def pow2_def nat_diff_distrib' n_def)
  ultimately show ?thesis by simp
next
  case False
  define j where "j = \<lceil>1 / x\<rceil>"
  define k where "k = nat (j - 1)"
  from False assms have "1 < 1 / x" by simp
  then have c: "2 \<le> j" unfolding j_def by linarith
  then have k: "0 < k" by (simp add: k_def)
  have "real (2 ^ (bit_length k - 1)) \<le> real k"
    using bit_length_lower [OF k] by (simp only: of_nat_le_iff)
  also have "real k = of_int j - 1" using c by (simp add: k_def)
  also have "of_int j - 1 < 1 / x" unfolding j_def by linarith
  finally have "2 ^ (bit_length k - 1) < 1 / x" by simp
  then have "x < 1 / 2 ^ (bit_length k - 1)"
    using assms by (simp add: field_simps)
  also have "1 / 2 ^ (bit_length k - 1) = 2 * (1 / (2::real) ^ bit_length k)"
    using bit_length_pos [OF k] by (cases "bit_length k") simp_all
  finally have "x < 2 * (1 / 2 ^ bit_length k)" .
  moreover have "pow2 (floor_log2 x) = 1 / 2 ^ bit_length k"
    using bit_length_pos [OF k] False by (simp add: floor_log2_def pow2_def k_def j_def)
  ultimately show ?thesis by simp
qed

lemma round_half_even_upper: "of_int (round_half_even m) \<le> m + 1 / 2"
  unfolding round_half_even_def Let_def by (auto; linarith)

lemma round_half_even_ge_1: "1 \<le> m \<Longrightarrow> 1 \<le> round_half_even m"
  unfolding round_half_even_def Let_def by (auto; linarith)

lemma round_half_even_nonneg: "0 \<le> m \<Longrightarrow> 0 \<le> round_half_even m"
  unfolding round_half_even_def Let_def by (auto; linarith)

lemma round_half_even_of_int [simp]: "round_half_even (of_int k) = k"
  by (simp add: round_half_even_def)

text \<open>
  Between the least subnormal number and \<open>2\<^sup>1\<^sup>0\<^sup>2\<^sup>3\<close>, rounding gives a finite number
  of the same sign, not zero.
\<close>

lemma round_binary64_finite:
  assumes nz: "x \<noteq> 0" and lo: "pow2 (- 1074) \<le> \<bar>x\<bar>" and hi: "\<bar>x\<bar> \<le> 2 ^ 1023"
  shows "\<exists>y. round_binary64 x = Finite (if x < 0 then - y else y)
             \<and> pow2 (- 1074) \<le> y \<and> y \<le> 3 / 2 * \<bar>x\<bar>"
proof -
  define q where "q = max (floor_log2 \<bar>x\<bar> - 52) (- 1074)"
  define r where "r = round_half_even (\<bar>x\<bar> / pow2 q)"
  define y where "y = of_int r * pow2 q"
  have pos: "0 < \<bar>x\<bar>" using nz by simp
  have q_lo: "- 1074 \<le> q" by (simp add: q_def)
  have "pow2 q \<le> \<bar>x\<bar>"
  proof (cases "floor_log2 \<bar>x\<bar> - 52 \<le> - 1074")
    case True
    then have "q = - 1074" by (simp add: q_def)
    with lo show ?thesis by simp
  next
    case False
    then have "q = floor_log2 \<bar>x\<bar> - 52" by (simp add: q_def)
    then have "pow2 q \<le> pow2 (floor_log2 \<bar>x\<bar>)" by (simp add: pow2_mono)
    also have "\<dots> \<le> \<bar>x\<bar>" by (rule floor_log2_lower [OF pos])
    finally show ?thesis .
  qed
  then have m1: "1 \<le> \<bar>x\<bar> / pow2 q" using pow2_pos [of q] by (simp add: field_simps)
  then have r1: "1 \<le> r" unfolding r_def by (rule round_half_even_ge_1)
  then have "pow2 q \<le> y"
    using pow2_pos [of q] by (simp add: y_def mult_le_cancel_right1 of_int_1_le_iff)
  moreover have "pow2 (- 1074) \<le> pow2 q" using q_lo by (rule pow2_mono)
  ultimately have y_lo: "pow2 (- 1074) \<le> y" by linarith
  have "of_int r \<le> \<bar>x\<bar> / pow2 q + 1 / 2"
    unfolding r_def by (rule round_half_even_upper)
  then have "of_int r * pow2 q \<le> (\<bar>x\<bar> / pow2 q + 1 / 2) * pow2 q"
    using pow2_pos [of q] by (simp only: mult_le_cancel_right_pos)
  also have "\<dots> = \<bar>x\<bar> + pow2 q / 2"
    using pow2_pos [of q] by (simp add: field_simps)
  also have "\<dots> \<le> 3 / 2 * \<bar>x\<bar>" using \<open>pow2 q \<le> \<bar>x\<bar>\<close> by simp
  finally have y_hi: "y \<le> 3 / 2 * \<bar>x\<bar>" by (simp add: y_def)
  have "3 / 2 * \<bar>x\<bar> \<le> 3 / 2 * 2 ^ 1023" using hi by simp
  also have "\<dots> < (2::real) ^ 1024" by simp
  finally have "y < 2 ^ 1024" using y_hi by linarith
  have "round_binary64 x =
      (if 2 ^ 1024 \<le> y then (if x < 0 then NegInfinity else PosInfinity)
       else Finite (if x < 0 then - y else y))"
    unfolding round_binary64_def Let_def y_def r_def q_def by (simp only: nz if_False)
  with \<open>y < 2 ^ 1024\<close> have "round_binary64 x = Finite (if x < 0 then - y else y)"
    by (simp only: not_le [symmetric] if_False)
  with y_lo y_hi show ?thesis by blast
qed

text \<open>A binary64 value other than zero is at least the least subnormal number.\<close>

lemma is_binary64_lower:
  assumes "is_binary64 x" and nz: "x \<noteq> 0"
  shows "pow2 (- 1074) \<le> \<bar>x\<bar>"
proof -
  define q where "q = max (floor_log2 \<bar>x\<bar> - 52) (- 1074)"
  define r where "r = round_half_even (\<bar>x\<bar> / pow2 q)"
  define y where "y = of_int r * pow2 q"
  have eq: "round_binary64 x = Finite x" using assms(1) by (simp add: is_binary64_def)
  have unf: "round_binary64 x =
      (if 2 ^ 1024 \<le> y then (if x < 0 then NegInfinity else PosInfinity)
       else Finite (if x < 0 then - y else y))"
    unfolding round_binary64_def Let_def y_def r_def q_def by (simp only: nz if_False)
  from eq unf have xy: "\<bar>x\<bar> = \<bar>y\<bar>"
    by (auto split: if_splits)
  have "0 \<le> \<bar>x\<bar> / pow2 q" using pow2_pos [of q] by simp
  then have "0 \<le> r" unfolding r_def by (rule round_half_even_nonneg)
  moreover have "r \<noteq> 0" using xy nz by (auto simp: y_def)
  ultimately have "1 \<le> r" by simp
  then have "pow2 q \<le> y"
    using pow2_pos [of q] by (simp add: y_def mult_le_cancel_right1 of_int_1_le_iff)
  moreover have "pow2 (- 1074) \<le> pow2 q" by (rule pow2_mono) (simp add: q_def)
  ultimately show ?thesis using xy by linarith
qed

text \<open>Integers below \<open>2\<^sup>5\<^sup>3\<close> in magnitude are binary64 values.\<close>

lemma round_binary64_of_int:
  assumes "\<bar>u\<bar> < 2 ^ 53"
  shows "round_binary64 (of_int u) = Finite (of_int u)"
proof (cases "u = 0")
  case True
  then show ?thesis by (simp add: round_binary64_def)
next
  case False
  define n where "n = nat \<bar>u\<bar>"
  have n: "0 < n" "n < 2 ^ 53" "\<bar>real_of_int u\<bar> = real n"
    using False assms by (simp_all add: n_def nat_less_iff)
  define k where "k = 53 - bit_length n"
  have bl: "0 < bit_length n" "bit_length n \<le> 53"
    using bit_length_pos [OF n(1)] bit_length_le [OF n(2)] by simp_all
  have fl: "floor_log2 (real n) = int (bit_length n) - 1"
    using n(1) by (simp add: floor_log2_def)
  have q: "max (floor_log2 (real n) - 52) (- 1074) = - int k"
    using bl by (simp add: fl k_def)
  have p: "pow2 (- int k) = 1 / 2 ^ k"
    by (cases k) (simp_all add: pow2_def nat_add_distrib)
  have m: "real n / pow2 (- int k) = of_int (int n * 2 ^ k)"
    by (simp add: p)
  have y: "real_of_int (int n * 2 ^ k) * pow2 (- int k) = real n"
    by (simp add: p)
  have small: "\<not> (2 ^ 1024 \<le> real n)"
  proof -
    have "real n < 2 ^ 53" using n(2) by (metis of_nat_less_iff of_nat_numeral of_nat_power)
    also have "\<dots> \<le> (2::real) ^ 1024" by (rule power_increasing) simp_all
    finally show ?thesis by simp
  qed
  have "round_binary64 (of_int u) =
      (if 2 ^ 1024 \<le> real n then (if real_of_int u < 0 then NegInfinity else PosInfinity)
       else Finite (if real_of_int u < 0 then - real n else real n))"
    unfolding round_binary64_def Let_def n(3) q m round_half_even_of_int y
    using False by simp
  with small
  have "round_binary64 (of_int u) = Finite (if real_of_int u < 0 then - real n else real n)"
    by simp
  moreover have "(if real_of_int u < 0 then - real n else real n) = of_int u"
    by (simp add: n_def)
  ultimately show ?thesis by simp
qed

section \<open>Claims on the amount codec\<close>

text \<open>
  C1. The claim: for every non-negative decimal amount with at most 6 fractional digits,
  \<open>formatUsdc (parseUsdc a)\<close> is \<open>a\<close> again. At the amount \<^verbatim>\<open>8.2\<close> the code does
  otherwise: the binary64 product \<^verbatim>\<open>8.2 * 1e6\<close> is \<^verbatim>\<open>8199999.999999999\<close>, its floor is
  8199999 atomic units, and these format to \<^verbatim>\<open>8.199999\<close>, which is not the number
  \<^verbatim>\<open>8.2\<close>.
\<close>

theorem C1_roundtrip_broken_at_8_2:
  "parseUsdc (js_literal (41 / 5)) = Inr 8199999
   \<and> formatUsdc (Big 8199999) = js_literal (8199999 / 1000000)
   \<and> formatUsdc (Big 8199999) \<noteq> js_literal (41 / 5)"
  by (simp add: literal_8_2 parseUsdc_double_8_2 formatUsdc_8199999 literal_8_199999)

text \<open>
  The second half of the codec's contract holds of \<open>formatUsdc\<close>: for atomic units below
  \<open>2\<^sup>5\<^sup>3\<close> the result is the number that the decimal \<open>u / 10\<^sup>6\<close> denotes.
\<close>

lemma formatUsdc_nearest:
  "\<bar>u\<bar> < 2 ^ 53 \<Longrightarrow> formatUsdc (Big u) = js_literal (fromAtomic u)"
  by (simp add: formatUsdc_def round_binary64_of_int js_literal_def fromAtomic_def)

text \<open>
  C8. The claim: for every non-negative decimal amount \<open>a\<close>, \<open>parseUsdc a\<close> is the floor
  of \<open>a * 10\<^sup>6\<close>, and \<open>formatUsdc u\<close> is \<open>u / 10\<^sup>6\<close>. The code floors the binary64 product,
  which is rounded first: at \<^verbatim>\<open>8.2\<close> it answers 8199999, and the floor of
  \<open>8.2 * 10\<^sup>6\<close> is 8200000.
\<close>

theorem C8_parseUsdc_is_not_the_floor_at_8_2:
  "parseUsdc (js_literal (41 / 5)) = Inr 8199999 \<and> toAtomic (41 / 5) = 8200000"
  by (simp add: literal_8_2 parseUsdc_double_8_2 toAtomic_def)

lemma parseUsdc_negative:
  assumes neg: "x < 0" and rep: "is_binary64 x" and lo: "- (2 ^ 1000) \<le> x"
  shows "\<exists>y<0. round_binary64 (x * 1000000) = Finite y \<and> parseUsdc (Finite x) = Inr \<lfloor>y\<rfloor>
            \<and> \<lfloor>y\<rfloor> < 0"
proof -
  have nz: "x * 1000000 \<noteq> 0" using neg by simp
  have "pow2 (- 1074) \<le> \<bar>x\<bar>" using rep neg by (intro is_binary64_lower) simp_all
  also have "\<bar>x\<bar> \<le> \<bar>x * 1000000\<bar>" by (simp add: abs_mult)
  finally have small: "pow2 (- 1074) \<le> \<bar>x * 1000000\<bar>" .
  have "\<bar>x * 1000000\<bar> \<le> 2 ^ 1000 * 1000000" using neg lo by (simp add: abs_mult)
  also have "\<dots> \<le> (2::real) ^ 1000 * 2 ^ 23" by simp
  also have "\<dots> = 2 ^ 1023" by (simp only: power_add [symmetric]) simp
  finally have big: "\<bar>x * 1000000\<bar> \<le> 2 ^ 1023" .
  from round_binary64_finite [OF nz small big] neg
  obtain y where y: "round_binary64 (x * 1000000) = Finite (- y)" and "pow2 (- 1074) \<le> y"
    by (auto simp: mult_less_0_iff)
  then have "0 < y" using pow2_pos [of "- 1074"] by linarith
  then have "- y < 0" "\<lfloor>- y\<rfloor> < 0" by linarith+
  moreover have "parseUsdc (Finite x) = Inr \<lfloor>- y\<rfloor>"
    by (simp add: parseUsdc_def y)
  ultimately show ?thesis using y by blast
qed

lemma bigint_toString_negative: "n < 0 \<Longrightarrow> hd (bigint_toString n) = CHR ''-''"
  by (simp add: bigint_toString_def)

text \<open>
  C6. The claim: for every negative amount, \<open>parseUsdc\<close> fails or clamps, so that the
  amount is rejected before the payload is built. At the amount \<^verbatim>\<open>-1\<close> the code answers
  the negative integer \<open>-1000000\<close>, and \<open>createLoanOffer\<close> of a connected wallet builds
  the payload with the string \<^verbatim>\<open>-1000000\<close> and runs the whole submission.
\<close>

theorem C6_negative_amount_counterexample:
  "parseUsdc (js_literal (- 1)) = Inr (- 1000000)
   \<and> fst (createLoanOffer example_aptos connected_context (js_literal (- 1)) (Finite 5)
            (Finite 30) (Finite 150))
       = [PayloadBuilt (createEntryFunctionPayload ''create_offer'' [USDC_COIN]
                          [ArgString ''-1000000'', ArgNumber (Finite 5), ArgNumber (Finite 30),
                           ArgNumber (Finite 150)]),
          BuildTransaction, SignTransaction, SubmitTransaction, WaitForTransaction ''0xabc'']"
proof -
  have lit: "js_literal (- 1) = Finite (- 1)"
    by (simp add: js_literal_def binary64_eval)
  have p: "parseUsdc (Finite (- 1)) = Inr (- 1000000)"
    by (simp add: parseUsdc_def binary64_eval)
  have s: "bigint_toString (- 1000000) = ''-1000000''"
    by (simp add: bigint_toString_def nat_toString.simps digit_char_def)
  show ?thesis
    by (simp add: lit p s createLoanOffer_def ensureConnected_def connected_context_def
        build_and_submit_def submitTransaction_def example_aptos_def)
qed

text \<open>
  C6, as the code has it: for every negative binary64 amount \<open>x\<close> not below \<open>-2\<^sup>1\<^sup>0\<^sup>0\<^sup>0\<close>,
  \<open>parseUsdc\<close> neither fails nor clamps: the binary64 product \<^verbatim>\<open>x * 1e6\<close> is a negative
  finite number \<open>y\<close> and the answer is its floor, a negative integer; and
  \<open>createLoanOffer\<close> of a connected wallet builds the \<^verbatim>\<open>create_offer\<close> payload with the
  decimal string of that integer, minus sign first, and submits it.
\<close>

theorem C6_negative_amounts_are_submitted:
  assumes "x < 0" and "is_binary64 x" and "- (2 ^ 1000) \<le> x"
    and "account ctx = Some a" and "isConnected ctx"
  shows "\<exists>y<0. round_binary64 (x * 1000000) = Finite y
           \<and> parseUsdc (Finite x) = Inr \<lfloor>y\<rfloor>
           \<and> \<lfloor>y\<rfloor> < 0
           \<and> createLoanOffer aptos ctx (Finite x) interestRate duration collateralRatio
               = build_and_submit aptos a
                   (createEntryFunctionPayload ''create_offer'' [USDC_COIN]
                      [ArgString (bigint_toString \<lfloor>y\<rfloor>), ArgNumber interestRate,
                       ArgNumber duration, ArgNumber collateralRatio])
           \<and> hd (bigint_toString \<lfloor>y\<rfloor>) = CHR ''-''"
proof -
  from parseUsdc_negative [OF assms(1-3)]
  obtain y where y: "y < 0" "round_binary64 (x * 1000000) = Finite y"
    "parseUsdc (Finite x) = Inr \<lfloor>y\<rfloor>" "\<lfloor>y\<rfloor> < 0" by blast
  have "createLoanOffer aptos ctx (Finite x) interestRate duration collateralRatio
               = build_and_submit aptos a
                   (createEntryFunctionPayload ''create_offer'' [USDC_COIN]
                      [ArgString (bigint_toString \<lfloor>y\<rfloor>), ArgNumber interestRate,
                       ArgNumber duration, ArgNumber collateralRatio])"
    using assms(4,5) y(3) by (simp add: createLoanOffer_def ensureConnected_def)
  with y bigint_toString_negative [OF y(4)] show ?thesis by blast
qed

text \<open>C6, the theorem at the amount \<^verbatim>\<open>-1\<close> and a connected wallet.\<close>

theorem C6_negative_amounts_are_submitted_witness:
  "\<exists>y<0. round_binary64 (- 1 * 1000000) = Finite y
     \<and> parseUsdc (Finite (- 1)) = Inr \<lfloor>y\<rfloor>
     \<and> \<lfloor>y\<rfloor> < 0
     \<and> createLoanOffer example_aptos connected_context (Finite (- 1)) (Finite 5) (Finite 30)
          (Finite 150)
         = build_and_submit example_aptos example_account
             (createEntryFunctionPayload ''create_offer'' [USDC_COIN]
                [ArgString (bigint_toString \<lfloor>y\<rfloor>), ArgNumber (Finite 5), ArgNumber (Finite 30),
                 ArgNumber (Finite 150)])
     \<and> hd (bigint_toString \<lfloor>y\<rfloor>) = CHR ''-''"
proof -
  have 1: "(- 1 :: real) < 0" by simp
  have 2: "is_binary64 (- 1)" by (simp add: is_binary64_def binary64_eval)
  have 3: "- (2 ^ 1000) \<le> (- 1 :: real)" by simp
  have 4: "account connected_context = Some example_account"
    by (simp add: connected_context_def)
  have 5: "isConnected connected_context" by (simp add: connected_context_def)
  show ?thesis
    by (rule C6_negative_amounts_are_submitted [OF 1 2 3 4 5])
qed

section \<open>Claims on the transaction submitter\<close>

lemma message_or_nonempty: "fallback \<noteq> [] \<Longrightarrow> message_or e fallback \<noteq> []"
  by (simp add: message_or_def split: option.splits)

text \<open>
  What \<open>submitTransaction\<close> does at each stage. It ends by throwing in one way only, the
  TypeError of its own \<^verbatim>\<open>catch\<close> block. A result with \<open>success\<close> false carries a reason
  that is not empty. A rejection of the build, of the signing, of the submission or of
  the wait for confirmation with a value whose message can be read gives the failure
  result with that message (or \<^verbatim>\<open>Transaction failed\<close>), and when the four stages succeed
  the result is the success with the hash of the pending transaction.
\<close>

lemma submitTransaction_stages:
  "(snd (submitTransaction aptos sender payload) = Thrown err \<longrightarrow> err = TypeError)
   \<and> (snd (submitTransaction aptos sender payload) = Returned r \<and> \<not> success r
        \<longrightarrow> (\<exists>m. r = TxFailure m \<and> m \<noteq> []))
   \<and> (transaction_build_simple aptos sender payload = Rejected e
        \<longrightarrow> snd (submitTransaction aptos sender payload)
              = Returned (TxFailure (message_or e ''Transaction failed'')))
   \<and> (transaction_build_simple aptos sender payload = Fulfilled rawTxn
        \<and> transaction_sign aptos sender rawTxn = Rejected e
        \<longrightarrow> snd (submitTransaction aptos sender payload)
              = Returned (TxFailure (message_or e ''Transaction failed'')))
   \<and> (transaction_build_simple aptos sender payload = Fulfilled rawTxn
        \<and> transaction_sign aptos sender rawTxn = Fulfilled auth
        \<and> transaction_submit_simple aptos rawTxn auth = Rejected e
        \<longrightarrow> snd (submitTransaction aptos sender payload)
              = Returned (TxFailure (message_or e ''Transaction failed'')))
   \<and> (transaction_build_simple aptos sender payload = Fulfilled rawTxn
        \<and> transaction_sign aptos sender rawTxn = Fulfilled auth
        \<and> transaction_submit_simple aptos rawTxn auth = Fulfilled pendingTxn
        \<and> waitForTransaction aptos (hash pendingTxn) = Rejected e
        \<longrightarrow> snd (submitTransaction aptos sender payload)
              = Returned (TxFailure (message_or e ''Transaction failed'')))
   \<and> (transaction_build_simple aptos sender payload = Fulfilled rawTxn
        \<and> transaction_sign aptos sender rawTxn = Fulfilled auth
        \<and> transaction_submit_simple aptos rawTxn auth = Fulfilled pendingTxn
        \<and> waitForTransaction aptos (hash pendingTxn) = Fulfilled response
        \<longrightarrow> snd (submitTransaction aptos sender payload)
              = Returned (TxSuccess (hash pendingTxn) response))"
proof -
  have nonempty: "\<And>x. message_or x ''Transaction failed'' \<noteq> []"
    by (rule message_or_nonempty) simp
  have 1: "snd (submitTransaction aptos sender payload) = Thrown err \<longrightarrow> err = TypeError"
    by (simp add: submitTransaction_def split: promise.splits)
  have 2: "snd (submitTransaction aptos sender payload) = Returned r \<and> \<not> success r
        \<longrightarrow> (\<exists>m. r = TxFailure m \<and> m \<noteq> [])"
    using nonempty
    by (auto simp: submitTransaction_def transaction_failed_def split: promise.splits)
  show ?thesis
    using 1 2 by (simp add: submitTransaction_def transaction_failed_def)
qed

text \<open>On a ledger none of whose calls is rejected with null or undefined, it never throws.\<close>

lemma submitTransaction_throws_on_nullish_only:
  assumes "\<And>s p. transaction_build_simple aptos s p \<noteq> RejectedNullish"
    and "\<And>s t. transaction_sign aptos s t \<noteq> RejectedNullish"
    and "\<And>t a. transaction_submit_simple aptos t a \<noteq> RejectedNullish"
    and "\<And>h. waitForTransaction aptos h \<noteq> RejectedNullish"
  shows "snd (submitTransaction aptos sender payload) \<noteq> Thrown err"
  using assms by (simp add: submitTransaction_def split: promise.splits)

text \<open>
  Five ledgers: every stage succeeding, and the build, the signing, the submission, the
  wait for confirmation failing in turn with a readable value.
\<close>

lemma submitTransaction_examples:
  "snd (submitTransaction example_aptos example_account example_payload)
     = Returned (TxSuccess ''0xabc'' ''committed'')
   \<and> snd (submitTransaction build_fails_aptos example_account example_payload)
     = Returned (TxFailure ''Account not found'')
   \<and> snd (submitTransaction sign_fails_aptos example_account example_payload)
     = Returned (TxFailure ''Transaction failed'')
   \<and> snd (submitTransaction submit_fails_aptos example_account example_payload)
     = Returned (TxFailure ''Transaction 0xabc timed out'')
   \<and> snd (submitTransaction timeout_aptos example_account example_payload)
     = Returned (TxFailure ''Transaction 0xabc timed out'')"
  by (simp add: submitTransaction_def transaction_failed_def example_aptos_def
      build_fails_aptos_def sign_fails_aptos_def submit_fails_aptos_def timeout_aptos_def
      message_or_def)

text \<open>
  C7. The claim: \<open>submitTransaction\<close> never throws past its own boundary; a failure at any
  stage is returned as a result with \<open>success\<close> false. When the signing is rejected with
  undefined, the \<^verbatim>\<open>catch\<close> block's read of \<^verbatim>\<open>error.message\<close> throws: after the build and
  the signing the call ends with a TypeError and returns no result.
\<close>

theorem C7_submitTransaction_throws_on_undefined_rejection:
  "transaction_build_simple undefined_rejection_aptos example_account example_payload
     = Fulfilled ''raw''
   \<and> transaction_sign undefined_rejection_aptos example_account ''raw'' = RejectedNullish
   \<and> submitTransaction undefined_rejection_aptos example_account example_payload
       = ([BuildTransaction, SignTransaction], Thrown TypeError)"
  by (simp add: submitTransaction_def undefined_rejection_aptos_def example_aptos_def)




section \<open>Claims on the lending hook\<close>

lemma ensureConnected_disconnected:
  "\<not> isConnected ctx \<or> account ctx = None
     \<Longrightarrow> ensureConnected ctx = Inl (Error ''Please connect your wallet first'')"
  by (auto simp: ensureConnected_def split: option.splits)

text \<open>
  C3. Each of the five actions, called while the wallet is not connected or there is no
  account, ends by throwing \<^verbatim>\<open>Please connect your wallet first\<close>, and has built no
  payload and made no ledger call.
\<close>

theorem C3_actions_fail_when_disconnected:
  assumes "\<not> isConnected ctx \<or> account ctx = None"
  shows "createLoanOffer aptos ctx amount interestRate duration collateralRatio
           = ([], Thrown (Error ''Please connect your wallet first''))
       \<and> cancelLoanOffer aptos ctx offerId
           = ([], Thrown (Error ''Please connect your wallet first''))
       \<and> requestLoan aptos ctx offerId amount collateralAmount
           = ([], Thrown (Error ''Please connect your wallet first''))
       \<and> approveLoanRequest aptos ctx requestId
           = ([], Thrown (Error ''Please connect your wallet first''))
       \<and> repayLoan aptos ctx loanId amount
           = ([], Thrown (Error ''Please connect your wallet first''))"
  using ensureConnected_disconnected [OF assms]
  by (simp add: createLoanOffer_def cancelLoanOffer_def requestLoan_def
      approveLoanRequest_def repayLoan_def)

text \<open>C3, the theorem on the disconnected wallet.\<close>

theorem C3_actions_fail_when_disconnected_witness:
  "createLoanOffer example_aptos disconnected_context (Finite 100) (Finite 5) (Finite 30)
       (Finite 150) = ([], Thrown (Error ''Please connect your wallet first''))
   \<and> cancelLoanOffer example_aptos disconnected_context ''7''
       = ([], Thrown (Error ''Please connect your wallet first''))
   \<and> requestLoan example_aptos disconnected_context ''7'' (Finite 100) (Finite 150)
       = ([], Thrown (Error ''Please connect your wallet first''))
   \<and> approveLoanRequest example_aptos disconnected_context ''2''
       = ([], Thrown (Error ''Please connect your wallet first''))
   \<and> repayLoan example_aptos disconnected_context ''2'' (Finite 100)
       = ([], Thrown (Error ''Please connect your wallet first''))"
proof -
  have "\<not> isConnected disconnected_context \<or> account disconnected_context = None"
    by (simp add: disconnected_context_def)
  from C3_actions_fail_when_disconnected [OF this] show ?thesis
    by blast
qed

text \<open>
  C10. Without an account, the three views return the empty list: no error and no ledger
  call. The five actions throw in the same state.
\<close>

theorem C10_views_empty_without_account:
  assumes "account ctx = None"
  shows "getLoanOffers aptos ctx = ([], Returned [])
       \<and> getLoanRequests aptos ctx offerId = ([], Returned [])
       \<and> getUserLoans aptos ctx = ([], Returned [])
       \<and> createLoanOffer aptos ctx amount interestRate duration collateralRatio
           = ([], Thrown (Error ''Please connect your wallet first''))
       \<and> cancelLoanOffer aptos ctx oid
           = ([], Thrown (Error ''Please connect your wallet first''))
       \<and> requestLoan aptos ctx oid amount collateralAmount
           = ([], Thrown (Error ''Please connect your wallet first''))
       \<and> approveLoanRequest aptos ctx requestId
           = ([], Thrown (Error ''Please connect your wallet first''))
       \<and> repayLoan aptos ctx loanId amount
           = ([], Thrown (Error ''Please connect your wallet first''))"
  using assms
  by (simp add: getLoanOffers_def getLoanRequests_def getUserLoans_def ensureConnected_def
      createLoanOffer_def cancelLoanOffer_def requestLoan_def approveLoanRequest_def
      repayLoan_def)

text \<open>C10, the theorem on the disconnected wallet.\<close>

theorem C10_views_empty_without_account_witness:
  "getLoanOffers example_aptos disconnected_context = ([], Returned [])
   \<and> getLoanRequests example_aptos disconnected_context (Some ''7'') = ([], Returned [])
   \<and> getUserLoans example_aptos disconnected_context = ([], Returned [])
   \<and> cancelLoanOffer example_aptos disconnected_context ''7''
       = ([], Thrown (Error ''Please connect your wallet first''))"
proof -
  have "account disconnected_context = None"
    by (simp add: disconnected_context_def)
  from C10_views_empty_without_account [OF this] show ?thesis
    by blast
qed

text \<open>With an account, the view asks the ledger and projects the answer.\<close>

lemma getLoanOffers_connected_example:
  "getLoanOffers example_aptos connected_context
     = ([ViewCall (view_function ''get_all_offers'')],
        Returned [HookLoanOffer ''7'' ''0xb0b'' (js_literal (5 / 2)) (js_literal (11 / 2))
                    (Finite 86400) (Finite 150) ''active''])"
  by (simp add: getLoanOffers_def example_aptos_def connected_context_def project_offer_def
      formatUsdc_def js_literal_def binary64_eval toLowerCase_def lower_char_def)

section \<open>Claims on the lender's list\<close>

lemma promise_all_fulfilled:
  "(\<And>x. x \<in> set xs \<Longrightarrow> f x = Fulfilled (g x))
     \<Longrightarrow> promise_all (map f xs) = Fulfilled (map g xs)"
  by (induction xs) simp_all

lemma nat_toString_digits [simp]:
  "nat_toString 0 = ''0''" "nat_toString 1 = ''1''" "nat_toString 2 = ''2''"
  "nat_toString 3 = ''3''" "nat_toString 4 = ''4''" "nat_toString (Suc 0) = ''1''"
  by (subst nat_toString.simps, simp add: digit_char_def)+

lemma upt_5: "[0..<5] = [0, 1, 2, 3, 4]"
  by (simp add: upt_rec)

text \<open>
  For a connected account \<open>a\<close>, when the registry is answered as \<^verbatim>\<open>{data: resource}\<close> with
  its table of requests, and the table items \<open>0\<close> to \<open>total_requests - 1\<close> are fetched,
  \<open>item i\<close> under the key \<open>i\<close>, the list shown is the fetched list filtered by "lender is
  the address of \<open>a\<close> and status is 0": the items of the keys that pass, the keys in
  ascending order.
\<close>

lemma fetchRequests_filters_fetched_items:
  assumes cfg: "getAccountResource aptos M (M @ ''::lending::PlatformConfig'')
                  = Fulfilled (Wrapped cfg)"
    and tbl: "loan_requests cfg = Some tbl"
    and items: "\<forall>i<total_requests cfg.
        getTableItem aptos (handle tbl)
          \<lparr>key = nat_toString i, key_type = ''u64'',
           value_type = M @ ''::lending::LoanRequest''\<rparr> = Fulfilled (item i)"
  shows "requests (fetchRequests M aptos (Some a) st)
           = filter (\<lambda>req. lender req = address a \<and> status req = 0)
               (map item [0..<total_requests cfg])
       \<and> requests (fetchRequests M aptos (Some a) st)
           = map item (filter (\<lambda>i. lender (item i) = address a \<and> status (item i) = 0)
               [0..<total_requests cfg])
       \<and> sorted_wrt (<) (filter (\<lambda>i. lender (item i) = address a \<and> status (item i) = 0)
               [0..<total_requests cfg])
       \<and> error (fetchRequests M aptos (Some a) st) = None
       \<and> \<not> loading (fetchRequests M aptos (Some a) st)"
proof -
  let ?get = "\<lambda>i. getTableItem aptos (handle tbl)
          \<lparr>key = nat_toString i, key_type = ''u64'',
           value_type = M @ ''::lending::LoanRequest''\<rparr>"
  have all: "promise_all (map ?get [0..<total_requests cfg])
               = Fulfilled (map item [0..<total_requests cfg])"
    by (rule promise_all_fulfilled) (use items in simp)
  have st: "fetchRequests M aptos (Some a) st
      = st\<lparr>loading := False, error := None,
           requests := filter (\<lambda>req. lender req = address a \<and> status req = 0)
                         (map item [0..<total_requests cfg])\<rparr>"
    by (simp add: fetchRequests_def cfg tbl all)
  show ?thesis
    by (simp add: st filter_map comp_def sorted_wrt_filter)
qed

lemma example_table_items:
  "i < 5 \<Longrightarrow>
     getTableItem example_aptos ''0x7ab1e''
       \<lparr>key = nat_toString i, key_type = ''u64'',
        value_type = ''0x1'' @ ''::lending::LoanRequest''\<rparr> = Fulfilled (example_request i)"
proof -
  assume "i < 5"
  then have "i = 0 \<or> i = 1 \<or> i = 2 \<or> i = 3 \<or> i = 4" by auto
  then show ?thesis
    by (auto simp: example_aptos_def example_table_def)
qed

text \<open>
  On the example ledger, whose client answers \<^verbatim>\<open>{data: resource}\<close>: of the five requests,
  the lender \<^verbatim>\<open>0xb0b\<close> sees request 2 only.
\<close>

lemma fetchRequests_example:
  "requests (fetchRequests ''0x1'' example_aptos (Some example_account) example_list)
     = [example_request 2]"
proof -
  have cfg: "getAccountResource example_aptos ''0x1'' (''0x1'' @ ''::lending::PlatformConfig'')
               = Fulfilled (Wrapped \<lparr>total_requests = 5,
                                      loan_requests = Some \<lparr>handle = ''0x7ab1e''\<rparr>\<rparr>)"
    by (simp add: example_aptos_def)
  have tbl: "loan_requests \<lparr>total_requests = 5, loan_requests = Some \<lparr>handle = ''0x7ab1e''\<rparr>\<rparr>
               = Some \<lparr>handle = ''0x7ab1e''\<rparr>"
    by simp
  have items: "\<forall>i<total_requests
                     \<lparr>total_requests = 5, loan_requests = Some \<lparr>handle = ''0x7ab1e''\<rparr>\<rparr>.
        getTableItem example_aptos (handle \<lparr>handle = ''0x7ab1e''\<rparr>)
          \<lparr>key = nat_toString i, key_type = ''u64'',
           value_type = ''0x1'' @ ''::lending::LoanRequest''\<rparr> = Fulfilled (example_request i)"
    using example_table_items by simp
  show ?thesis
    using fetchRequests_filters_fetched_items [OF cfg tbl items, of example_account example_list]
    by (simp add: upt_5 example_request_def example_account_def)
qed


lemma fetchRequests_actionStatus [simp]:
  "actionStatus (fetchRequests M aptos acct st) = actionStatus st"
  by (simp add: fetchRequests_def fetch_failed_def split: option.splits promise.splits)

lemma handleApprove_begin_frame:
  "r1 \<noteq> r2
     \<Longrightarrow> actionStatus (fst (handleApprove_begin M acct now st r1)) r2 = actionStatus st r2"
  by (simp add: handleApprove_begin_def split: option.splits)

lemma handleApprove_settle_frame:
  "r1 \<noteq> r2
     \<Longrightarrow> actionStatus (handleApprove_settle M aptos acct st r1 settled) r2 = actionStatus st r2"
  by (simp add: handleApprove_settle_def split: promise.splits)

lemma run_approve_turn_frame:
  "r2 \<noteq> turn_id t
     \<Longrightarrow> actionStatus (run_approve_turn M aptos acct st t) r2 = actionStatus st r2"
  by (cases t) (auto intro!: handleApprove_begin_frame handleApprove_settle_frame)

text \<open>
  Whatever the order of the turns of the approve actions in flight, the status entry of
  a request id changes in the turns on that id only.
\<close>

lemma approve_turns_frame:
  "r2 \<notin> turn_id ` set ts
     \<Longrightarrow> actionStatus (approve_turns M aptos acct st ts) r2 = actionStatus st r2"
  by (induction ts arbitrary: st) (simp_all add: run_approve_turn_frame)

text \<open>
  C9. For distinct request ids \<open>r1\<close> and \<open>r2\<close>, neither turn of an approve action on
  \<open>r1\<close>, nor the whole action, changes the status entry of \<open>r2\<close>, whether the action
  succeeds or fails. When both actions are in flight and the one on \<open>r1\<close> fails, the
  entry of \<open>r2\<close> is still the one its own click has set.
\<close>

theorem C9_approve_updates_only_its_own_status:
  assumes "r1 \<noteq> r2"
  shows "actionStatus (handleApprove_settle M aptos acct st r1 settled) r2 = actionStatus st r2
       \<and> actionStatus (fst (handleApprove_begin M acct now st r1)) r2 = actionStatus st r2
       \<and> actionStatus (handleApprove M aptos signAndSubmitTransaction acct now st r1) r2
           = actionStatus st r2
       \<and> actionStatus
           (approve_turns M aptos acct st
              [Click r1 now, Click r2 now', Settle r1 (Rejected e)]) r2
         = actionStatus (fst (handleApprove_begin M acct now' st r2)) r2"
proof -
  have a: "actionStatus (handleApprove M aptos signAndSubmitTransaction acct now st r1) r2
             = actionStatus st r2"
    using assms
    by (cases "handleApprove_begin M acct now st r1")
       (auto simp: handleApprove_def handleApprove_settle_frame split: option.splits
             dest: arg_cong [where f = "\<lambda>p. actionStatus (fst p) r2"]
             simp: handleApprove_begin_frame)
  have b: "actionStatus
           (approve_turns M aptos acct st
              [Click r1 now, Click r2 now', Settle r1 (Rejected e)]) r2
         = actionStatus (fst (handleApprove_begin M acct now' st r2)) r2"
    using assms
    by (simp add: handleApprove_settle_frame)
       (simp add: handleApprove_begin_def split: option.splits)
  show ?thesis
    using assms a b by (simp add: handleApprove_begin_frame handleApprove_settle_frame)
qed

text \<open>
  C9, the theorem on the requests 2 and 3 of the example list: both approvals are
  clicked, the wallet rejects the one on request 2, and the entry of request 3 is in
  flight still, with no error.
\<close>

theorem C9_approve_updates_only_its_own_status_witness:
  "actionStatus
     (approve_turns ''0x1'' example_aptos (Some example_account) example_list
        [Click ''2'' 1000, Click ''3'' 2000,
         Settle ''2'' (Rejected (Rejection (Some ''User rejected the request'')))]) ''3''
     = Some (ActionStatus True None)
   \<and> actionStatus
     (approve_turns ''0x1'' example_aptos (Some example_account) example_list
        [Click ''2'' 1000, Click ''3'' 2000,
         Settle ''2'' (Rejected (Rejection (Some ''User rejected the request'')))]) ''2''
     = Some (ActionStatus False (Some ''User rejected the request''))"
proof -
  have ne: "''2'' \<noteq> ''3''" by simp
  have own: "actionStatus
      (fst (handleApprove_begin ''0x1'' (Some example_account) 2000 example_list ''3'')) ''3''
      = Some (ActionStatus True None)"
    by (simp add: handleApprove_begin_def example_list_def)
  have failed: "actionStatus
     (approve_turns ''0x1'' example_aptos (Some example_account) example_list
        [Click ''2'' 1000, Click ''3'' 2000,
         Settle ''2'' (Rejected (Rejection (Some ''User rejected the request'')))]) ''2''
     = Some (ActionStatus False (Some ''User rejected the request''))"
    by (simp add: handleApprove_begin_def handleApprove_settle_def example_list_def
        message_or_def)
  from C9_approve_updates_only_its_own_status [OF ne, of "''0x1''" example_aptos
      "Some example_account" example_list "Pending" 1000 "\<lambda>t. Pending" 2000
      "Rejection (Some ''User rejected the request'')"]
  show ?thesis
    using own failed by simp
qed

section \<open>Claims on the session state\<close>

text \<open>
  C5. The claim: while a connect or disconnect is in flight, a new call is suppressed.
  After \<^verbatim>\<open>connect('Petra')\<close> has begun and before it settles, \<open>isConnecting\<close> is true;
  a second \<^verbatim>\<open>connect('Martian')\<close>, or a \<^verbatim>\<open>disconnect()\<close>, reaches the wallet adapter
  all the same.
\<close>

theorem C5_no_reentrancy_guard_counterexample:
  "isConnecting (connect_begin example_session ''Petra'')
   \<and> adapter_calls (connect_begin (connect_begin example_session ''Petra'') ''Martian'')
       = [ConnectWallet ''Petra'', ConnectWallet ''Martian'']
   \<and> connect_begin (connect_begin example_session ''Petra'') ''Martian''
       \<noteq> connect_begin example_session ''Petra''
   \<and> adapter_calls (disconnect_begin (connect_begin example_session ''Petra''))
       = [ConnectWallet ''Petra'', DisconnectWallet]"
  by (simp add: connect_begin_def disconnect_begin_def example_session_def)

lemma run_session_turn_calls:
  "length (adapter_calls (run_session_turn st t))
     = length (adapter_calls st) + (if is_call t then 1 else 0)"
  by (cases t)
     (simp_all add: connect_begin_def disconnect_begin_def connect_settle_def
        disconnect_settle_def split: promise.splits)

text \<open>
  C5, as the code has it: every call of \<open>connect\<close> and of \<open>disconnect\<close> sets
  \<open>isConnecting\<close> and is forwarded to the wallet adapter, whatever \<open>isConnecting\<close> was;
  in any sequence of calls and settlements the adapter has received as many calls as
  were made.
\<close>

theorem C5_every_call_is_forwarded:
  "adapter_calls (connect_begin st walletName) = adapter_calls st @ [ConnectWallet walletName]
   \<and> isConnecting (connect_begin st walletName)
   \<and> adapter_calls (disconnect_begin st) = adapter_calls st @ [DisconnectWallet]
   \<and> isConnecting (disconnect_begin st)
   \<and> length (adapter_calls (session_turns st ts))
       = length (adapter_calls st) + length (filter is_call ts)"
proof -
  have "length (adapter_calls (session_turns st ts))
       = length (adapter_calls st) + length (filter is_call ts)"
    by (induction ts arbitrary: st) (simp_all add: run_session_turn_calls)
  then show ?thesis
    by (simp add: connect_begin_def disconnect_begin_def)
qed

text \<open>
  C5, the theorem on two overlapping connects and a disconnect: three calls reach the
  adapter.
\<close>

theorem C5_every_call_is_forwarded_witness:
  "length (adapter_calls (session_turns example_session
      [Connect ''Petra'', Connect ''Martian'', ConnectSettled (Fulfilled ()), Disconnect]))
     = 3"
  using C5_every_call_is_forwarded [of example_session "''Petra''"
      "[Connect ''Petra'', Connect ''Martian'', ConnectSettled (Fulfilled ()), Disconnect]"]
  by (simp add: example_session_def)

end
